theory Spec2Isabelle
  imports Complex_Main
begin

section \<open>The books routes of the Book Management API\<close>

text \<open>
  The module under verification defines an Express router with two handlers,
  \<^verbatim>\<open>GET /get_by_rating/:rating\<close> and
  \<^verbatim>\<open>DELETE /books/delete_by_range/:min/:max\<close>, and the formatter
  \<^verbatim>\<open>formatBooks\<close> that reshapes stored rows into the public view.

  Conventions of the embedding:
  \<^item> a JavaScript string is a \<open>string\<close> whose characters are the code units
    below 256; texts with other code units are outside the model.
    \<^verbatim>\<open>undefined\<close> is \<open>None\<close> of an option type;
  \<^item> a JavaScript number that came out of \<^verbatim>\<open>parseInt\<close> is \<open>NaN\<close>, an infinity,
    or the integer value of a double: the integer that the digits denote,
    rounded to 53 significant bits, ties to even;
  \<^item> the query parameters of a request are text or absent, as the casts
    \<^verbatim>\<open>as string\<close> of the source declare them;
  \<^item> a handler is a value of type \<open>step\<close>: either it answers at once, or it hands
    one statement with its bound values to the pool and continues with the
    callbacks given to \<^verbatim>\<open>.then\<close> and \<^verbatim>\<open>.catch\<close>.
\<close>

subsection \<open>Stored rows and the public view\<close>

text \<open>A row of table \<^verbatim>\<open>books\<close>, with the columns \<^verbatim>\<open>formatBooks\<close> reads.\<close>

record book_row =
  isbn13 :: int
  authors :: string
  publication_year :: int
  original_title :: string
  title :: string
  rating_avg :: rat
  rating_count :: int
  rating_1_star :: int
  rating_2_star :: int
  rating_3_star :: int
  rating_4_star :: int
  rating_5_star :: int
  image_url :: string
  image_small_url :: string

text \<open>\<^verbatim>\<open>interface IRatings\<close>\<close>

record IRatings =
  average :: rat
  count :: int
  rating_1 :: int
  rating_2 :: int
  rating_3 :: int
  rating_4 :: int
  rating_5 :: int

text \<open>\<^verbatim>\<open>interface IUrlIcon\<close>\<close>

record IUrlIcon =
  large :: string
  small :: string

text \<open>
  \<^verbatim>\<open>interface IBook\<close>. The fields \<^verbatim>\<open>isbn13\<close>, \<^verbatim>\<open>authors\<close>,
  \<^verbatim>\<open>original_title\<close> and \<^verbatim>\<open>title\<close> carry the prefix \<open>book_\<close> here, since a
  field name is a constant and the stored row already owns these four.
\<close>

record IBook =
  book_isbn13 :: int
  book_authors :: string
  publication :: int
  book_original_title :: string
  book_title :: string
  ratings :: IRatings
  icons :: IUrlIcon

text \<open>The arrow function that \<^verbatim>\<open>formatBooks\<close> maps over the rows.\<close>

definition formatBook :: "book_row \<Rightarrow> IBook" where
  "formatBook book =
     \<lparr> book_isbn13 = isbn13 book,
       book_authors = authors book,
       publication = publication_year book,
       book_original_title = original_title book,
       book_title = title book,
       ratings =
         \<lparr> average = rating_avg book,
           count = rating_count book,
           rating_1 = rating_1_star book,
           rating_2 = rating_2_star book,
           rating_3 = rating_3_star book,
           rating_4 = rating_4_star book,
           rating_5 = rating_5_star book \<rparr>,
       icons =
         \<lparr> large = image_url book,
           small = image_small_url book \<rparr> \<rparr>"

definition formatBooks :: "book_row list \<Rightarrow> IBook list" where
  "formatBooks books = map formatBook books"

subsection \<open>JavaScript values and \<^verbatim>\<open>parseInt\<close>\<close>

text \<open>
  The numbers \<^verbatim>\<open>parseInt\<close> can return: \<open>NaN\<close>, a double of integer value, or an
  infinity (the two zeros of a double are the one \<open>Num 0\<close>: they compare equal).
\<close>

datatype jsnum = NaN | Num int | PosInfinity | NegInfinity

text \<open>What a handler binds to a placeholder: a query parameter as it came, or a number.\<close>

datatype jsval = Undefined | Str string | Number jsnum

definition of_param :: "string option \<Rightarrow> jsval" where
  "of_param p = (case p of None \<Rightarrow> Undefined | Some s \<Rightarrow> Str s)"

text \<open>
  White space that \<^verbatim>\<open>parseInt\<close> skips in front: TAB, LF, VT, FF, CR, SP and NBSP
  (the white space and line terminators of ECMAScript below code unit 256).
\<close>

definition is_white :: "char \<Rightarrow> bool" where
  "is_white c = (of_char c \<in> {9, 10, 11, 12, 13, 32, 160 :: nat})"

text \<open>The value of a digit or letter as a digit of some radix up to 36.\<close>

definition digit_value :: "char \<Rightarrow> nat option" where
  "digit_value c =
     (let n = of_char c :: nat in
      if 48 \<le> n \<and> n \<le> 57 then Some (n - 48)
      else if 97 \<le> n \<and> n \<le> 122 then Some (n - 87)
      else if 65 \<le> n \<and> n \<le> 90 then Some (n - 55)
      else None)"

definition is_digit :: "nat \<Rightarrow> char \<Rightarrow> bool" where
  "is_digit R c = (case digit_value c of None \<Rightarrow> False | Some d \<Rightarrow> d < R)"

definition digits_value :: "nat \<Rightarrow> string \<Rightarrow> nat" where
  "digits_value R Z = foldl (\<lambda>acc c. acc * R + the (digit_value c)) 0 Z"

text \<open>The number of binary digits of a natural number.\<close>

fun bit_length :: "nat \<Rightarrow> nat" where
  "bit_length n = (if n = 0 then 0 else Suc (bit_length (n div 2)))"

text \<open>
  The double nearest to a natural number, as the number value of ECMAScript
  takes it: exact below \<open>2^53\<close>; above, the 53 leading bits are kept and the
  rest is rounded to nearest, ties to even; a result of \<open>2^1024\<close> or more is
  infinite (\<open>None\<close>).
\<close>

definition round_double :: "nat \<Rightarrow> nat option" where
  "round_double m =
     (if m < 2 ^ 53 then Some m
      else
        let e = bit_length m - 53;
            q = m div 2 ^ e;
            r = m mod 2 ^ e;
            half = 2 ^ (e - 1);
            q' = (if half < r \<or> (r = half \<and> odd q) then q + 1 else q);
            v = q' * 2 ^ e
        in if 2 ^ 1024 \<le> v then None else Some v)"

text \<open>
  \<^verbatim>\<open>parseInt(string)\<close> with no radix, after ECMAScript: skip leading white
  space, take a sign, take the prefix \<^verbatim>\<open>0x\<close> or \<^verbatim>\<open>0X\<close> as radix 16, read the longest
  run of digits, and ignore whatever follows. No digit at all is \<open>NaN\<close>;
  otherwise the result is the number value of the signed integer the digits
  denote. (The standard lets an implementation read the decimal digits after
  the 20th as 0; the model rounds the exact integer.)
\<close>

definition parseInt_text :: "string \<Rightarrow> jsnum" where
  "parseInt_text inputString =
     (let S = dropWhile is_white inputString;
          sign = (if S \<noteq> [] \<and> hd S = CHR ''-'' then - 1 else 1 :: int);
          S1 = (if S \<noteq> [] \<and> (hd S = CHR ''+'' \<or> hd S = CHR ''-'') then tl S else S);
          hex = (take 2 S1 = ''0x'' \<or> take 2 S1 = ''0X'');
          R = (if hex then 16 else 10 :: nat);
          S2 = (if hex then drop 2 S1 else S1);
          Z = takeWhile (is_digit R) S2
      in if Z = [] then NaN
         else (case round_double (digits_value R Z) of
                 None \<Rightarrow> if sign < 0 then NegInfinity else PosInfinity
               | Some v \<Rightarrow> Num (sign * int v)))"

text \<open>An absent parameter is \<^verbatim>\<open>undefined\<close>, which \<^verbatim>\<open>parseInt\<close> reads as the text "undefined".\<close>

definition parseInt :: "string option \<Rightarrow> jsnum" where
  "parseInt p = parseInt_text (case p of None \<Rightarrow> ''undefined'' | Some s \<Rightarrow> s)"

definition isNaN :: "jsnum \<Rightarrow> bool" where
  "isNaN x = (case x of NaN \<Rightarrow> True | _ \<Rightarrow> False)"

text \<open>The comparisons \<^verbatim>\<open><\<close> and \<^verbatim>\<open>>\<close> of numbers: false as soon as a side is \<open>NaN\<close>.\<close>

fun js_lt :: "jsnum \<Rightarrow> jsnum \<Rightarrow> bool" where
  "js_lt NaN y = False"
| "js_lt x NaN = False"
| "js_lt (Num a) (Num b) = (a < b)"
| "js_lt (Num a) PosInfinity = True"
| "js_lt NegInfinity (Num b) = True"
| "js_lt NegInfinity PosInfinity = True"
| "js_lt x y = False"

definition js_gt :: "jsnum \<Rightarrow> jsnum \<Rightarrow> bool" where
  "js_gt x y = js_lt y x"

text \<open>\<^verbatim>\<open>!x\<close> for a query parameter: true when it is absent or the empty text.\<close>

definition js_not :: "string option \<Rightarrow> bool" where
  "js_not p = (case p of None \<Rightarrow> True | Some s \<Rightarrow> s = [])"


subsection \<open>Requests, responses and the steps of a handler\<close>

text \<open>
  \<^verbatim>\<open>request.params\<close> holds the segments the route pattern names,
  \<^verbatim>\<open>request.query\<close> the parameters of the query string.
\<close>

record request =
  params :: "string \<rightharpoonup> string"
  query :: "string \<rightharpoonup> string"

text \<open>
  The three bodies the handlers send: \<^verbatim>\<open>{ message }\<close>, \<^verbatim>\<open>{ books }\<close> and
  \<^verbatim>\<open>{ message, deletedCount }\<close>.
\<close>

datatype body =
    MessageBody string
  | BooksBody "IBook list"
  | DeletedBody string nat

record response =
  status :: nat
  body :: body

text \<open>What \<^verbatim>\<open>pool.query\<close> resolves to, and the outcome of its promise.\<close>

record query_result =
  rows :: "book_row list"
  rowCount :: nat

type_synonym db_error = string

datatype outcome = Resolved query_result | Rejected db_error

text \<open>A line written by \<^verbatim>\<open>console.error\<close>.\<close>

datatype log_entry = LogText string | LogError db_error

datatype step =
    Respond response
  | Await string "jsval list" "outcome \<Rightarrow> log_entry list \<times> response"

text \<open>\<^verbatim>\<open>promise.then(f).catch(g)\<close>, for an \<open>f\<close> that does not throw.\<close>

definition then_catch ::
  "(query_result \<Rightarrow> response) \<Rightarrow> (db_error \<Rightarrow> log_entry list \<times> response) \<Rightarrow>
   outcome \<Rightarrow> log_entry list \<times> response" where
  "then_catch f g out = (case out of Resolved result \<Rightarrow> ([], f result) | Rejected error \<Rightarrow> g error)"

subsection \<open>\<^verbatim>\<open>GET /get_by_rating/:rating\<close>\<close>

definition get_by_rating_theQuery :: string where
  "get_by_rating_theQuery = ''SELECT * FROM books WHERE FLOOR(rating_avg) = $1''"

definition get_by_rating_then :: "query_result \<Rightarrow> response" where
  "get_by_rating_then result =
     (if length (rows result) = 0
      then \<lparr> status = 404, body = MessageBody ''No books found with that rating.'' \<rparr>
      else \<lparr> status = 200, body = BooksBody (formatBooks (rows result)) \<rparr>)"

definition get_by_rating_catch :: "db_error \<Rightarrow> log_entry list \<times> response" where
  "get_by_rating_catch error =
     ([LogText ''DB Query error on GET /book_by_rating'', LogError error],
      \<lparr> status = 500, body = MessageBody ''Server error - contact support'' \<rparr>)"

definition get_by_rating :: "request \<Rightarrow> step" where
  "get_by_rating request =
     (if js_not (query request ''rating'')
      then Respond \<lparr> status = 400, body = MessageBody ''Rating parameter is required.'' \<rparr>
      else
        let rating = parseInt (query request ''rating'') in
        if isNaN rating \<or> js_lt rating (Num 1) \<or> js_gt rating (Num 5)
        then Respond \<lparr> status = 400, body = MessageBody
               ''Invalid rating parameter. Please specify a rating between 1 and 5.'' \<rparr>
        else Await get_by_rating_theQuery [Number rating]
               (then_catch get_by_rating_then get_by_rating_catch))"

subsection \<open>\<^verbatim>\<open>DELETE /books/delete_by_range/:min/:max\<close>\<close>

definition delete_by_range_theQuery :: string where
  "delete_by_range_theQuery =
     ''DELETE FROM books WHERE publication_year >= $1 AND publication_year <= $2''"

definition delete_by_range_then :: "query_result \<Rightarrow> response" where
  "delete_by_range_then result =
     \<lparr> status = 200, body = DeletedBody ''Books successfully deleted'' (rowCount result) \<rparr>"

definition delete_by_range_catch :: "db_error \<Rightarrow> log_entry list \<times> response" where
  "delete_by_range_catch error =
     ([LogText ''DB Query error on DELETE /delete_by_range'', LogError error],
      \<lparr> status = 500, body = MessageBody ''Server error - contact support'' \<rparr>)"

definition delete_by_range :: "request \<Rightarrow> step" where
  "delete_by_range request =
     (let values = [of_param (query request ''min''), of_param (query request ''max'')];
          min = parseInt (query request ''min'');
          max = parseInt (query request ''max'')
      in
        if isNaN min \<or> isNaN max \<or> js_gt min max
        then Respond \<lparr> status = 400, body = MessageBody
               ''Invalid date parameters. Please specify a min and max publication year. min must be less than max.'' \<rparr>
        else Await delete_by_range_theQuery values
               (then_catch delete_by_range_then delete_by_range_catch))"

subsection \<open>Running a handler against a pool\<close>

text \<open>The statement and the bound values a handler hands to the pool, if it does.\<close>

fun issued :: "step \<Rightarrow> (string \<times> jsval list) option" where
  "issued (Respond r) = None"
| "issued (Await sql vals k) = Some (sql, vals)"

text \<open>What is logged and sent, given the outcome of the query (unused by a handler that answers at once).\<close>

fun answer :: "step \<Rightarrow> outcome \<Rightarrow> log_entry list \<times> response" where
  "answer (Respond r) out = ([], r)"
| "answer (Await sql vals k) out = k out"

text \<open>
  A pool is any function from the state of the database, a statement and its
  bound values to an outcome and the next state. A handler that answers at
  once never calls it.
\<close>

fun run ::
  "('db \<Rightarrow> string \<Rightarrow> jsval list \<Rightarrow> outcome \<times> 'db) \<Rightarrow> step \<Rightarrow> 'db \<Rightarrow>
   log_entry list \<times> response \<times> 'db" where
  "run pool (Respond r) db = ([], r, db)"
| "run pool (Await sql vals k) db =
     (case pool db sql vals of (out, db') \<Rightarrow> (fst (k out), snd (k out), db'))"

subsection \<open>The pool\<close>

text \<open>
  Modelled from the spec: the connection pool \<^verbatim>\<open>pool\<close> that the routes import
  from \<^verbatim>\<open>core/utilities\<close>, and the SQL engine behind it, are not part of the
  sources. The state of the database is the table \<^verbatim>\<open>books\<close> and, when the
  database is out of order, the error it raises.
\<close>

record database =
  books_table :: "book_row list"
  fault :: "db_error option"

text \<open>
  Modelled from the spec: how the engine, which is not part of the sources,
  reads a bound value as an integer. A number is itself; a text is an integer
  when it is an optional sign followed by decimal digits and nothing else.
  Engines differ on more lenient texts (blanks around the digits, other
  radixes); the model refuses them, and the theorems use it only on plain
  decimal texts and on a text with letters after the digits.
\<close>

definition integer_text :: "string \<Rightarrow> int option" where
  "integer_text s =
     (let ds = (if s \<noteq> [] \<and> (hd s = CHR ''+'' \<or> hd s = CHR ''-'') then tl s else s) in
      if ds \<noteq> [] \<and> list_all (is_digit 10) ds
      then Some ((if hd s = CHR ''-'' then - 1 else 1) * int (digits_value 10 ds))
      else None)"

definition bind_integer :: "jsval \<Rightarrow> int option" where
  "bind_integer v =
     (case v of Number (Num n) \<Rightarrow> Some n | Str s \<Rightarrow> integer_text s | _ \<Rightarrow> None)"

text \<open>
  Modelled from the spec: the one operation of the pool,
  \<^verbatim>\<open>query(sql, params) -> {rows, rowCount}\<close>, which is not part of the sources,
  for the two statements of the routes, each run as one step on the table. The
  SELECT returns the rows whose \<^verbatim>\<open>FLOOR(rating_avg)\<close> equals the bound value
  and changes nothing; the DELETE removes the rows whose \<^verbatim>\<open>publication_year\<close>
  lies between the two bound values, bounds included, and returns their
  number. A database with a \<open>fault\<close> rejects every query, and so does a bound
  value that is not an integer (a handler that passed validation binds no
  \<^verbatim>\<open>undefined\<close> and no \<open>NaN\<close>).
\<close>

definition pool_query :: "database \<Rightarrow> string \<Rightarrow> jsval list \<Rightarrow> outcome \<times> database" where
  "pool_query db sql vals =
     (case fault db of
        Some e \<Rightarrow> (Rejected e, db)
      | None \<Rightarrow>
          if sql = get_by_rating_theQuery then
            (case map bind_integer vals of
               [Some r] \<Rightarrow>
                 let found = filter (\<lambda>b. \<lfloor>rating_avg b\<rfloor> = r) (books_table db)
                 in (Resolved \<lparr> rows = found, rowCount = length found \<rparr>, db)
             | _ \<Rightarrow> (Rejected ''invalid input syntax'', db))
          else if sql = delete_by_range_theQuery then
            (case map bind_integer vals of
               [Some lo, Some hi] \<Rightarrow>
                 let gone = filter (\<lambda>b. lo \<le> publication_year b \<and> publication_year b \<le> hi) (books_table db);
                     kept = filter (\<lambda>b. \<not> (lo \<le> publication_year b \<and> publication_year b \<le> hi)) (books_table db)
                 in (Resolved \<lparr> rows = [], rowCount = length gone \<rparr>, db \<lparr> books_table := kept \<rparr>)
             | _ \<Rightarrow> (Rejected ''invalid input syntax'', db))
          else (Rejected ''syntax error'', db))"

text \<open>A row with a given title, year of publication and average rating, for the examples.\<close>

definition sample_row :: "string \<Rightarrow> int \<Rightarrow> rat \<Rightarrow> book_row" where
  "sample_row t y avg =
     \<lparr> isbn13 = 9780000000000, authors = ''A. Author'', publication_year = y,
       original_title = t, title = t, rating_avg = avg, rating_count = 10,
       rating_1_star = 1, rating_2_star = 1, rating_3_star = 2, rating_4_star = 3,
       rating_5_star = 3, image_url = ''l.jpg'', image_small_url = ''s.jpg'' \<rparr>"

definition some_books :: "book_row list" where
  "some_books = [sample_row ''Emma'' 1995 (435 / 100), sample_row ''Ulysses'' 2001 (39 / 10)]"

subsection \<open>Validation and the pool: basic facts\<close>

lemmas parseInt_defs = parseInt_def parseInt_text_def is_white_def is_digit_def digit_value_def
  digits_value_def round_double_def

declare bit_length.simps [simp del]

lemma parseInt_undefined: "parseInt None = NaN"
  by (simp add: parseInt_defs)

lemma parseInt_empty: "parseInt (Some []) = NaN"
  by (simp add: parseInt_defs)

lemma js_not_parseInt: "js_not p \<Longrightarrow> parseInt p = NaN"
  by (cases p) (simp_all add: js_not_def parseInt_undefined parseInt_empty)

lemma get_by_rating_valid:
  assumes "parseInt (query request ''rating'') = Num r" and "1 \<le> r" and "r \<le> 5"
  shows "get_by_rating request =
           Await get_by_rating_theQuery [Number (Num r)]
             (then_catch get_by_rating_then get_by_rating_catch)"
proof -
  have "\<not> js_not (query request ''rating'')"
    using assms(1) js_not_parseInt by fastforce
  then show ?thesis
    using assms by (simp add: get_by_rating_def isNaN_def js_gt_def)
qed


lemma delete_by_range_valid:
  assumes "parseInt (query request ''min'') = Num lo" and "parseInt (query request ''max'') = Num hi"
    and "lo \<le> hi"
  shows "delete_by_range request =
           Await delete_by_range_theQuery
             [of_param (query request ''min''), of_param (query request ''max'')]
             (then_catch delete_by_range_then delete_by_range_catch)"
  using assms by (simp add: delete_by_range_def isNaN_def js_gt_def)

lemma delete_by_range_invalid:
  assumes "isNaN (parseInt (query request ''min'')) \<or> isNaN (parseInt (query request ''max''))
           \<or> js_gt (parseInt (query request ''min'')) (parseInt (query request ''max''))"
  shows "delete_by_range request = Respond \<lparr> status = 400, body = MessageBody
               ''Invalid date parameters. Please specify a min and max publication year. min must be less than max.'' \<rparr>"
  using assms by (auto simp add: delete_by_range_def)

lemma pool_query_select:
  "fault db = None \<Longrightarrow>
   pool_query db get_by_rating_theQuery [Number (Num r)] =
     (Resolved \<lparr> rows = filter (\<lambda>b. \<lfloor>rating_avg b\<rfloor> = r) (books_table db),
                 rowCount = length (filter (\<lambda>b. \<lfloor>rating_avg b\<rfloor> = r) (books_table db)) \<rparr>, db)"
  by (simp add: pool_query_def bind_integer_def Let_def)

lemma pool_query_fault:
  "fault db = Some e \<Longrightarrow> pool_query db sql vals = (Rejected e, db)"
  by (simp add: pool_query_def)

lemma get_by_rating_cases:
  "get_by_rating request = Respond \<lparr> status = 400, body = MessageBody ''Rating parameter is required.'' \<rparr>
   \<or> get_by_rating request = Respond \<lparr> status = 400, body = MessageBody
         ''Invalid rating parameter. Please specify a rating between 1 and 5.'' \<rparr>
   \<or> (\<exists>vals. get_by_rating request =
         Await get_by_rating_theQuery vals (then_catch get_by_rating_then get_by_rating_catch))"
  by (simp add: get_by_rating_def Let_def)

lemma delete_by_range_cases:
  "delete_by_range request = Respond \<lparr> status = 400, body = MessageBody
         ''Invalid date parameters. Please specify a min and max publication year. min must be less than max.'' \<rparr>
   \<or> (\<exists>vals. delete_by_range request =
         Await delete_by_range_theQuery vals (then_catch delete_by_range_then delete_by_range_catch))"
  by (simp add: delete_by_range_def Let_def)

text \<open>
  A text that the database reads as an integer below \<open>2^53\<close> in magnitude is
  read as the same integer by \<^verbatim>\<open>parseInt\<close>. For such texts the value
  validated and the value bound agree, and the DELETE route removes the rows
  of the range, reports their number, and reports 0 when the same request is
  repeated at once. A text that does not begin with a digit is read as \<open>NaN\<close>,
  and a decimal integer outside 1..5 is read as a number outside 1..5.
\<close>

lemma is_digit_10_iff: "is_digit 10 c \<longleftrightarrow> 48 \<le> (of_char c :: nat) \<and> (of_char c :: nat) \<le> 57"
  by (auto simp add: is_digit_def digit_value_def Let_def)

lemma is_digit_10_not_white: "is_digit 10 c \<Longrightarrow> \<not> is_white c"
  by (auto simp add: is_digit_10_iff is_white_def)

lemma is_digit_10_not_sign: "is_digit 10 c \<Longrightarrow> c \<noteq> CHR ''+'' \<and> c \<noteq> CHR ''-'' \<and> c \<noteq> CHR ''x'' \<and> c \<noteq> CHR ''X''"
  by (auto simp add: is_digit_10_iff)

lemma digits_not_hex:
  assumes "list_all (is_digit 10) ds"
  shows "take 2 ds \<noteq> ''0x'' \<and> take 2 ds \<noteq> ''0X''"
proof (cases ds)
  case Nil
  then show ?thesis by simp
next
  case (Cons a as)
  show ?thesis
  proof (cases as)
    case Nil
    with Cons show ?thesis by simp
  next
    case (Cons b bs)
    with \<open>ds = a # as\<close> assms have "is_digit 10 b" by simp
    from is_digit_10_not_sign [OF this] Cons \<open>ds = a # as\<close> show ?thesis by simp
  qed
qed

lemma takeWhile_all: "list_all P xs \<Longrightarrow> takeWhile P xs = xs"
  by (induction xs) simp_all




lemma round_double_exact: "m < 2 ^ 53 \<Longrightarrow> round_double m = Some m"
  by (simp add: round_double_def)



lemma parseInt_text_digits:
  assumes "ds \<noteq> []" and "list_all (is_digit 10) ds"
  shows "parseInt_text ds =
           (case round_double (digits_value 10 ds) of
              None \<Rightarrow> PosInfinity | Some v \<Rightarrow> Num (int v))"
    and "parseInt_text (CHR ''+'' # ds) =
           (case round_double (digits_value 10 ds) of
              None \<Rightarrow> PosInfinity | Some v \<Rightarrow> Num (int v))"
    and "parseInt_text (CHR ''-'' # ds) =
           (case round_double (digits_value 10 ds) of
              None \<Rightarrow> NegInfinity | Some v \<Rightarrow> Num (- int v))"
proof -
  from assms obtain d rest where ds: "ds = d # rest" and d: "is_digit 10 d"
    by (cases ds) auto
  note nh = digits_not_hex [OF assms(2)]
  note tw = takeWhile_all [OF assms(2)]
  have w: "\<not> is_white d" "d \<noteq> CHR ''+''" "d \<noteq> CHR ''-''"
    using is_digit_10_not_white [OF d] is_digit_10_not_sign [OF d] by simp_all
  have pw: "\<not> is_white CHR ''+''" "\<not> is_white CHR ''-''"
    by (simp_all add: is_white_def)
  have dw: "dropWhile is_white ds = ds" and h: "hd ds \<noteq> CHR ''+''" "hd ds \<noteq> CHR ''-''"
    using w by (simp_all add: ds)
  show "parseInt_text ds =
           (case round_double (digits_value 10 ds) of
              None \<Rightarrow> PosInfinity | Some v \<Rightarrow> Num (int v))"
    by (simp add: parseInt_text_def Let_def dw h nh tw assms(1) split: option.split)
  show "parseInt_text (CHR ''+'' # ds) =
           (case round_double (digits_value 10 ds) of
              None \<Rightarrow> PosInfinity | Some v \<Rightarrow> Num (int v))"
    by (simp add: parseInt_text_def Let_def pw nh tw assms(1) split: option.split)
  show "parseInt_text (CHR ''-'' # ds) =
           (case round_double (digits_value 10 ds) of
              None \<Rightarrow> NegInfinity | Some v \<Rightarrow> Num (- int v))"
    by (simp add: parseInt_text_def Let_def pw nh tw assms(1) split: option.split)
qed

lemma integer_text_cases:
  assumes "integer_text s = Some n"
  obtains ds where "ds \<noteq> []" and "list_all (is_digit 10) ds"
    and "(s = ds \<or> s = CHR ''+'' # ds) \<and> n = int (digits_value 10 ds)
         \<or> s = CHR ''-'' # ds \<and> n = - int (digits_value 10 ds)"
proof (cases s)
  case Nil
  with assms show ?thesis by (simp add: integer_text_def)
next
  case (Cons c cs)
  consider "c = CHR ''+''" | "c = CHR ''-''" | "c \<noteq> CHR ''+''" "c \<noteq> CHR ''-''" by blast
  then show ?thesis
  proof cases
    case 1
    with assms Cons have "cs \<noteq> []" "list_all (is_digit 10) cs" "n = int (digits_value 10 cs)"
      by (auto simp add: integer_text_def Let_def split: if_splits)
    with 1 Cons that [of cs] show ?thesis by simp
  next
    case 2
    with assms Cons have "cs \<noteq> []" "list_all (is_digit 10) cs" "n = - int (digits_value 10 cs)"
      by (auto simp add: integer_text_def Let_def split: if_splits)
    with 2 Cons that [of cs] show ?thesis by simp
  next
    case 3
    with assms Cons have "list_all (is_digit 10) s" "n = int (digits_value 10 s)"
      by (auto simp add: integer_text_def Let_def split: if_splits)
    with Cons that [of s] show ?thesis by simp
  qed
qed

lemma integer_text_parseInt:
  assumes "integer_text s = Some n" and "\<bar>n\<bar> < 2 ^ 53"
  shows "parseInt (Some s) = Num n"
proof -
  from assms(1) obtain ds where ds: "ds \<noteq> []" "list_all (is_digit 10) ds"
    and s: "(s = ds \<or> s = CHR ''+'' # ds) \<and> n = int (digits_value 10 ds)
         \<or> s = CHR ''-'' # ds \<and> n = - int (digits_value 10 ds)"
    by (rule integer_text_cases)
  from s assms(2) have "int (digits_value 10 ds) < 2 ^ 53" by auto
  then have "digits_value 10 ds < 2 ^ 53" by (simp add: zless_nat_eq_int_zless [symmetric])
  then have r: "round_double (digits_value 10 ds) = Some (digits_value 10 ds)"
    by (rule round_double_exact)
  from s show ?thesis
    by (auto simp add: parseInt_def parseInt_text_digits [OF ds] r)
qed



lemma pool_query_delete:
  assumes "fault db = None" and "bind_integer v1 = Some lo" and "bind_integer v2 = Some hi"
  shows "pool_query db delete_by_range_theQuery [v1, v2] =
     (Resolved \<lparr> rows = [],
                 rowCount = length (filter (\<lambda>b. lo \<le> publication_year b \<and> publication_year b \<le> hi) (books_table db)) \<rparr>,
      db \<lparr> books_table := filter (\<lambda>b. \<not> (lo \<le> publication_year b \<and> publication_year b \<le> hi)) (books_table db) \<rparr>)"
  using assms
  by (simp add: pool_query_def Let_def delete_by_range_theQuery_def get_by_rating_theQuery_def)

lemma delete_by_range_plain_text:
  assumes "query request ''min'' = Some s1" and "integer_text s1 = Some lo"
    and "query request ''max'' = Some s2" and "integer_text s2 = Some hi"
    and "lo \<le> hi" and "fault db = None"
    and "\<bar>lo\<bar> < 2 ^ 53" and "\<bar>hi\<bar> < 2 ^ 53"
  shows "run pool_query (delete_by_range request) db =
     ([], \<lparr> status = 200, body = DeletedBody ''Books successfully deleted''
            (length (filter (\<lambda>b. lo \<le> publication_year b \<and> publication_year b \<le> hi) (books_table db))) \<rparr>,
      db \<lparr> books_table := filter (\<lambda>b. \<not> (lo \<le> publication_year b \<and> publication_year b \<le> hi)) (books_table db) \<rparr>)"
proof -
  have p: "parseInt (query request ''min'') = Num lo" "parseInt (query request ''max'') = Num hi"
    using assms(1-4,7,8) by (simp_all add: integer_text_parseInt)
  have b: "bind_integer (of_param (query request ''min'')) = Some lo"
    "bind_integer (of_param (query request ''max'')) = Some hi"
    using assms(1-4) by (simp_all add: bind_integer_def of_param_def)
  show ?thesis
    by (simp add: delete_by_range_valid [OF p assms(5)] pool_query_delete [OF assms(6) b]
          then_catch_def delete_by_range_then_def)
qed

lemma delete_by_range_plain_text_again:
  assumes "query request ''min'' = Some s1" and "integer_text s1 = Some lo"
    and "query request ''max'' = Some s2" and "integer_text s2 = Some hi"
    and "lo \<le> hi" and "fault db = None"
    and "\<bar>lo\<bar> < 2 ^ 53" and "\<bar>hi\<bar> < 2 ^ 53"
    and "run pool_query (delete_by_range request) db = (logged, resp, db')"
  shows "run pool_query (delete_by_range request) db' =
     ([], \<lparr> status = 200, body = DeletedBody ''Books successfully deleted'' 0 \<rparr>, db')"
proof -
  let ?in = "\<lambda>b. lo \<le> publication_year b \<and> publication_year b \<le> hi"
  from assms(9) delete_by_range_plain_text [OF assms(1-8)]
  have db': "db' = db \<lparr> books_table := filter (\<lambda>b. \<not> ?in b) (books_table db) \<rparr>"
    by simp
  then have f: "fault db' = None" using assms(6) by simp
  have "filter ?in (books_table db') = []"
    by (simp add: db' filter_empty_conv)
  moreover have "filter (\<lambda>b. \<not> ?in b) (books_table db') = books_table db'"
    by (simp add: db')
  ultimately show ?thesis
    using delete_by_range_plain_text [OF assms(1-5) f assms(7,8)] by simp
qed

subsection \<open>The response formatter\<close>

text \<open>
  C7. \<^verbatim>\<open>formatBooks\<close> maps every stored row, in order, to one public book whose
  \<^verbatim>\<open>ratings.average\<close> is the row's \<^verbatim>\<open>rating_avg\<close>, whose \<^verbatim>\<open>icons.large\<close> and
  \<^verbatim>\<open>icons.small\<close> are \<^verbatim>\<open>image_url\<close> and \<^verbatim>\<open>image_small_url\<close>, whose
  \<^verbatim>\<open>publication\<close> is \<^verbatim>\<open>publication_year\<close>, and which carries \<^verbatim>\<open>isbn13\<close>,
  \<^verbatim>\<open>authors\<close>, \<^verbatim>\<open>title\<close>, \<^verbatim>\<open>original_title\<close> and the five per-star counts
  (and the rating count) over unchanged.
\<close>

theorem formatBooks_fields:
  "map (\<lambda>b. average (ratings b)) (formatBooks books) = map rating_avg books
   \<and> map (\<lambda>b. large (icons b)) (formatBooks books) = map image_url books
   \<and> map (\<lambda>b. small (icons b)) (formatBooks books) = map image_small_url books
   \<and> map publication (formatBooks books) = map publication_year books
   \<and> map book_isbn13 (formatBooks books) = map isbn13 books
   \<and> map book_authors (formatBooks books) = map authors books
   \<and> map book_title (formatBooks books) = map title books
   \<and> map book_original_title (formatBooks books) = map original_title books
   \<and> map (\<lambda>b. rating_1 (ratings b)) (formatBooks books) = map rating_1_star books
   \<and> map (\<lambda>b. rating_2 (ratings b)) (formatBooks books) = map rating_2_star books
   \<and> map (\<lambda>b. rating_3 (ratings b)) (formatBooks books) = map rating_3_star books
   \<and> map (\<lambda>b. rating_4 (ratings b)) (formatBooks books) = map rating_4_star books
   \<and> map (\<lambda>b. rating_5 (ratings b)) (formatBooks books) = map rating_5_star books
   \<and> map (\<lambda>b. count (ratings b)) (formatBooks books) = map rating_count books
   \<and> length (formatBooks books) = length books"
  by (simp add: formatBooks_def formatBook_def comp_def)

subsection \<open>Reading by rating\<close>




text \<open>
  C3. For every rating \<open>r\<close> from 1 to 5 that validation reads from the request,
  the handler hands the pool the statement
  \<^verbatim>\<open>SELECT * FROM books WHERE FLOOR(rating_avg) = $1\<close> with \<open>r\<close> bound as a
  number; the rows the pool resolves to are the stored rows whose
  \<^verbatim>\<open>FLOOR(rating_avg)\<close> is \<open>r\<close> (possibly none), the table is left as it was,
  and every book of a \<^verbatim>\<open>{ books }\<close> response has an average whose floor is \<open>r\<close>.
\<close>

theorem get_by_rating_selects_floor:
  assumes "parseInt (query request ''rating'') = Num r" and "1 \<le> r" and "r \<le> 5"
  shows "issued (get_by_rating request) =
           Some (''SELECT * FROM books WHERE FLOOR(rating_avg) = $1'', [Number (Num r)])
       \<and> (\<forall>db result db'.
            pool_query db ''SELECT * FROM books WHERE FLOOR(rating_avg) = $1'' [Number (Num r)]
              = (Resolved result, db') \<longrightarrow>
            db' = db \<and> rows result = filter (\<lambda>b. \<lfloor>rating_avg b\<rfloor> = r) (books_table db))
       \<and> (\<forall>db logged resp db' bs.
            run pool_query (get_by_rating request) db = (logged, resp, db') \<longrightarrow>
            body resp = BooksBody bs \<longrightarrow>
            (\<forall>b \<in> set bs. \<lfloor>average (ratings b)\<rfloor> = r))"
proof (intro conjI allI impI)
  note step = get_by_rating_valid [OF assms]
  show "issued (get_by_rating request) =
          Some (''SELECT * FROM books WHERE FLOOR(rating_avg) = $1'', [Number (Num r)])"
    by (simp add: step get_by_rating_theQuery_def)
next
  fix db result db'
  assume q: "pool_query db ''SELECT * FROM books WHERE FLOOR(rating_avg) = $1'' [Number (Num r)]
              = (Resolved result, db')"
  show "db' = db"
    using q by (cases "fault db") (auto simp add: pool_query_def bind_integer_def get_by_rating_theQuery_def Let_def)
  show "rows result = filter (\<lambda>b. \<lfloor>rating_avg b\<rfloor> = r) (books_table db)"
    using q by (cases "fault db") (auto simp add: pool_query_def bind_integer_def get_by_rating_theQuery_def Let_def)
next
  fix db logged resp db' bs
  assume r: "run pool_query (get_by_rating request) db = (logged, resp, db')"
    and b: "body resp = BooksBody bs"
  note step = get_by_rating_valid [OF assms]
  show "\<forall>b \<in> set bs. \<lfloor>average (ratings b)\<rfloor> = r"
  proof (cases "fault db")
    case None
    from r b show ?thesis
      by (auto simp add: step pool_query_select [OF None] then_catch_def get_by_rating_then_def
            formatBooks_def formatBook_def split: if_splits)
  next
    case (Some e)
    from r b show ?thesis
      by (auto simp add: step pool_query_fault [OF Some] then_catch_def get_by_rating_catch_def)
  qed
qed


theorem get_by_rating_selects_floor_witness:
  "parseInt (query \<lparr> params = Map.empty, query = [''rating'' \<mapsto> ''4''] \<rparr> ''rating'') = Num 4
   \<and> issued (get_by_rating \<lparr> params = Map.empty, query = [''rating'' \<mapsto> ''4''] \<rparr>) =
       Some (''SELECT * FROM books WHERE FLOOR(rating_avg) = $1'', [Number (Num 4)])
   \<and> run pool_query (get_by_rating \<lparr> params = Map.empty, query = [''rating'' \<mapsto> ''4''] \<rparr>)
         \<lparr> books_table = some_books, fault = None \<rparr> =
       ([], \<lparr> status = 200, body = BooksBody [formatBook (sample_row ''Emma'' 1995 (435 / 100))] \<rparr>,
        \<lparr> books_table = some_books, fault = None \<rparr>)
   \<and> \<lfloor>average (ratings (formatBook (sample_row ''Emma'' 1995 (435 / 100))))\<rfloor> = 4"
proof -
  let ?req = "\<lparr> params = Map.empty, query = [''rating'' \<mapsto> ''4''] \<rparr>"
  let ?db = "\<lparr> books_table = some_books, fault = None \<rparr>"
  let ?b = "formatBook (sample_row ''Emma'' 1995 (435 / 100))"
  have p: "parseInt (query ?req ''rating'') = Num 4"
    by (simp add: parseInt_defs)
  have run: "run pool_query (get_by_rating ?req) ?db = ([], \<lparr> status = 200, body = BooksBody [?b] \<rparr>, ?db)"
    by (simp add: get_by_rating_valid [OF p] pool_query_select then_catch_def get_by_rating_then_def
          some_books_def sample_row_def formatBooks_def floor_eq_iff)
  from get_by_rating_selects_floor [OF p]
  have i: "issued (get_by_rating ?req) =
             Some (''SELECT * FROM books WHERE FLOOR(rating_avg) = $1'', [Number (Num 4)])"
    and all: "\<And>db logged resp db' bs. run pool_query (get_by_rating ?req) db = (logged, resp, db') \<Longrightarrow>
            body resp = BooksBody bs \<Longrightarrow> (\<forall>b \<in> set bs. \<lfloor>average (ratings b)\<rfloor> = 4)"
    by simp_all blast
  from all [OF run] have "\<lfloor>average (ratings ?b)\<rfloor> = 4" by simp
  with p i run show ?thesis by simp
qed

text \<open>
  C5. For every valid request, when the query resolves with no row the handler
  sends 404 with the message "No books found with that rating."; when it
  resolves with at least one row the handler sends 200 with \<^verbatim>\<open>{ books }\<close>, the
  rows reshaped by \<^verbatim>\<open>formatBooks\<close>.
\<close>

theorem get_by_rating_404_or_books:
  assumes "parseInt (query request ''rating'') = Num r" and "1 \<le> r" and "r \<le> 5"
  shows "answer (get_by_rating request) (Resolved result) =
           ([], if rows result = []
                then \<lparr> status = 404, body = MessageBody ''No books found with that rating.'' \<rparr>
                else \<lparr> status = 200, body = BooksBody (formatBooks (rows result)) \<rparr>)"
  by (simp add: get_by_rating_valid [OF assms] then_catch_def get_by_rating_then_def)

theorem get_by_rating_404_or_books_witness:
  "parseInt (query \<lparr> params = Map.empty, query = [''rating'' \<mapsto> ''2''] \<rparr> ''rating'') = Num 2
   \<and> answer (get_by_rating \<lparr> params = Map.empty, query = [''rating'' \<mapsto> ''2''] \<rparr>)
        (Resolved \<lparr> rows = [], rowCount = 0 \<rparr>) =
       ([], \<lparr> status = 404, body = MessageBody ''No books found with that rating.'' \<rparr>)
   \<and> answer (get_by_rating \<lparr> params = Map.empty, query = [''rating'' \<mapsto> ''2''] \<rparr>)
        (Resolved \<lparr> rows = [sample_row ''Emma'' 1995 (5 / 2)], rowCount = 1 \<rparr>) =
       ([], \<lparr> status = 200, body = BooksBody [formatBook (sample_row ''Emma'' 1995 (5 / 2))] \<rparr>)"
proof -
  let ?req = "\<lparr> params = Map.empty, query = [''rating'' \<mapsto> ''2''] \<rparr>"
  have p: "parseInt (query ?req ''rating'') = Num 2"
    by (simp add: parseInt_defs)
  show ?thesis
    using p get_by_rating_404_or_books [OF p, of "\<lparr> rows = [], rowCount = 0 \<rparr>"]
      get_by_rating_404_or_books [OF p, of "\<lparr> rows = [sample_row ''Emma'' 1995 (5 / 2)], rowCount = 1 \<rparr>"]
    by (simp add: formatBooks_def)
qed

subsection \<open>Deleting by range of years\<close>

text \<open>
  C4. The claim is that a request whose \<^verbatim>\<open>min\<close> or \<^verbatim>\<open>max\<close> is not a number is
  answered 400 before the database is touched. The text "1999x" is not a
  number, and the message of the 400 answer asks for years; yet \<^verbatim>\<open>parseInt\<close>
  reads the 1999 at its start, \<^verbatim>\<open>isNaN\<close> lets it pass, and the DELETE is
  handed to the pool with the texts "1999x" and "2005" bound. The database
  refuses the first and the answer is 500.
\<close>

theorem delete_by_range_queries_1999x:
  "integer_text ''1999x'' = None
   \<and> parseInt (Some ''1999x'') = Num 1999
   \<and> delete_by_range \<lparr> params = Map.empty, query = [''min'' \<mapsto> ''1999x'', ''max'' \<mapsto> ''2005''] \<rparr> =
       Await ''DELETE FROM books WHERE publication_year >= $1 AND publication_year <= $2''
         [Str ''1999x'', Str ''2005'']
         (then_catch delete_by_range_then delete_by_range_catch)
   \<and> status (snd (answer (delete_by_range \<lparr> params = Map.empty, query = [''min'' \<mapsto> ''1999x'', ''max'' \<mapsto> ''2005''] \<rparr>)
        (Rejected ''invalid input syntax''))) = 500
   \<and> run pool_query
         (delete_by_range \<lparr> params = Map.empty, query = [''min'' \<mapsto> ''1999x'', ''max'' \<mapsto> ''2005''] \<rparr>)
         \<lparr> books_table = some_books, fault = None \<rparr> =
       ([LogText ''DB Query error on DELETE /delete_by_range'', LogError ''invalid input syntax''],
        \<lparr> status = 500, body = MessageBody ''Server error - contact support'' \<rparr>,
        \<lparr> books_table = some_books, fault = None \<rparr>)"
  by (simp add: integer_text_def parseInt_defs delete_by_range_def isNaN_def js_gt_def of_param_def
        delete_by_range_theQuery_def get_by_rating_theQuery_def then_catch_def
        delete_by_range_catch_def pool_query_def bind_integer_def)

text \<open>
  The comparison of \<^verbatim>\<open>min\<close> with \<^verbatim>\<open>max\<close> is one of doubles. The integer
  \<open>2^53 + 1\<close> is greater than \<open>2^53\<close>, but \<^verbatim>\<open>parseInt\<close> rounds it to \<open>2^53\<close>: the
  request passes validation and the DELETE is handed to the pool.
\<close>

lemma bit_length_2_53: "bit_length 9007199254740992 = 54"
  by (simp add: bit_length.simps)

lemma bit_length_2_53_1: "bit_length 9007199254740993 = 54"
  by (simp add: bit_length.simps)

lemma parseInt_2_53_1: "parseInt (Some ''9007199254740993'') = Num 9007199254740992"
  by (simp add: parseInt_defs bit_length_2_53_1)

lemma delete_by_range_rounds_min:
  "integer_text ''9007199254740993'' = Some 9007199254740993
   \<and> integer_text ''9007199254740992'' = Some 9007199254740992
   \<and> issued (delete_by_range \<lparr> params = Map.empty,
        query = [''min'' \<mapsto> ''9007199254740993'', ''max'' \<mapsto> ''9007199254740992''] \<rparr>) =
       Some (''DELETE FROM books WHERE publication_year >= $1 AND publication_year <= $2'',
             [Str ''9007199254740993'', Str ''9007199254740992''])"
proof -
  have "parseInt (Some ''9007199254740992'') = Num 9007199254740992"
    by (simp add: parseInt_defs bit_length_2_53)
  then show ?thesis
    by (simp add: parseInt_2_53_1 delete_by_range_def isNaN_def js_gt_def of_param_def
          delete_by_range_theQuery_def integer_text_def is_digit_def digit_value_def
          digits_value_def)
qed

text \<open>
  Where \<^verbatim>\<open>parseInt\<close> gives \<open>NaN\<close> for \<^verbatim>\<open>min\<close> or \<^verbatim>\<open>max\<close>, or reads a \<^verbatim>\<open>min\<close>
  greater than \<^verbatim>\<open>max\<close>, the handler answers 400 and hands nothing to the pool:
  the table is left as it was whatever the pool is.
\<close>

lemma delete_by_range_rejects:
  assumes "isNaN (parseInt (query request ''min'')) \<or> isNaN (parseInt (query request ''max''))
           \<or> js_gt (parseInt (query request ''min'')) (parseInt (query request ''max''))"
  shows "delete_by_range request = Respond \<lparr> status = 400, body = MessageBody
           ''Invalid date parameters. Please specify a min and max publication year. min must be less than max.'' \<rparr>
       \<and> issued (delete_by_range request) = None
       \<and> status (snd (answer (delete_by_range request) out)) = 400
       \<and> snd (snd (run pool (delete_by_range request) db)) = db"
  using delete_by_range_invalid [OF assms] by simp

text \<open>
  C1. The claim is that a request which passes validation has the validated
  \<^verbatim>\<open>min\<close> and \<^verbatim>\<open>max\<close> bound to the DELETE, which then removes the rows of that
  range and reports their number. The handler fills \<^verbatim>\<open>values\<close> from
  \<^verbatim>\<open>request.query\<close> before it parses, and binds the texts as they came. For
  "1990abc" and "2000" validation reads 1990 and 2000, the pool is handed the
  texts "1990abc" and "2000", the database refuses the first, and the answer is
  500 with the row of 1995 still stored; bound as the numbers 1990 and 2000,
  the same statement removes that row and counts 1.
\<close>

theorem delete_by_range_binds_raw_text:
  "parseInt (Some ''1990abc'') = Num 1990
   \<and> parseInt (Some ''2000'') = Num 2000
   \<and> issued (delete_by_range \<lparr> params = Map.empty, query = [''min'' \<mapsto> ''1990abc'', ''max'' \<mapsto> ''2000''] \<rparr>) =
       Some (''DELETE FROM books WHERE publication_year >= $1 AND publication_year <= $2'',
             [Str ''1990abc'', Str ''2000''])
   \<and> run pool_query
         (delete_by_range \<lparr> params = Map.empty, query = [''min'' \<mapsto> ''1990abc'', ''max'' \<mapsto> ''2000''] \<rparr>)
         \<lparr> books_table = some_books, fault = None \<rparr> =
       ([LogText ''DB Query error on DELETE /delete_by_range'', LogError ''invalid input syntax''],
        \<lparr> status = 500, body = MessageBody ''Server error - contact support'' \<rparr>,
        \<lparr> books_table = some_books, fault = None \<rparr>)
   \<and> pool_query \<lparr> books_table = some_books, fault = None \<rparr>
         ''DELETE FROM books WHERE publication_year >= $1 AND publication_year <= $2''
         [Number (Num 1990), Number (Num 2000)] =
       (Resolved \<lparr> rows = [], rowCount = 1 \<rparr>,
        \<lparr> books_table = [sample_row ''Ulysses'' 2001 (39 / 10)], fault = None \<rparr>)"
  by (simp add: parseInt_defs delete_by_range_def isNaN_def js_gt_def of_param_def
        delete_by_range_theQuery_def get_by_rating_theQuery_def pool_query_def bind_integer_def
        integer_text_def then_catch_def delete_by_range_catch_def some_books_def sample_row_def)

text \<open>
  C6. For every request that passes validation, when the DELETE resolves the
  handler sends 200 with the message and \<^verbatim>\<open>deletedCount\<close>, the \<^verbatim>\<open>rowCount\<close> of
  the result, also when that is 0; no outcome of the query is answered with 404.
\<close>

theorem delete_by_range_sends_200:
  assumes "parseInt (query request ''min'') = Num lo" and "parseInt (query request ''max'') = Num hi"
    and "lo \<le> hi"
  shows "answer (delete_by_range request) (Resolved result) =
           ([], \<lparr> status = 200, body = DeletedBody ''Books successfully deleted'' (rowCount result) \<rparr>)
       \<and> (\<forall>out. status (snd (answer (delete_by_range request) out)) \<noteq> 404)"
proof -
  note step = delete_by_range_valid [OF assms]
  have "status (snd (answer (delete_by_range request) out)) \<noteq> 404" for out
    by (cases out) (simp_all add: step then_catch_def delete_by_range_then_def delete_by_range_catch_def)
  then show ?thesis
    by (simp add: step then_catch_def delete_by_range_then_def)
qed

theorem delete_by_range_sends_200_witness:
  "parseInt (query \<lparr> params = Map.empty, query = [''min'' \<mapsto> ''1990'', ''max'' \<mapsto> ''2000''] \<rparr> ''min'') = Num 1990
   \<and> parseInt (query \<lparr> params = Map.empty, query = [''min'' \<mapsto> ''1990'', ''max'' \<mapsto> ''2000''] \<rparr> ''max'') = Num 2000
   \<and> answer (delete_by_range \<lparr> params = Map.empty, query = [''min'' \<mapsto> ''1990'', ''max'' \<mapsto> ''2000''] \<rparr>)
        (Resolved \<lparr> rows = [], rowCount = 0 \<rparr>) =
       ([], \<lparr> status = 200, body = DeletedBody ''Books successfully deleted'' 0 \<rparr>)"
proof -
  let ?req = "\<lparr> params = Map.empty, query = [''min'' \<mapsto> ''1990'', ''max'' \<mapsto> ''2000''] \<rparr>"
  have lo: "parseInt (query ?req ''min'') = Num 1990" and hi: "parseInt (query ?req ''max'') = Num 2000"
    by (simp_all add: parseInt_defs)
  show ?thesis
    using lo hi delete_by_range_sends_200 [OF lo hi, of "\<lparr> rows = [], rowCount = 0 \<rparr>"]
    by simp
qed

subsection \<open>Failures\<close>

text \<open>
  C8. On either route, when the query is rejected the \<^verbatim>\<open>catch\<close> callback logs the
  error and sends 500 with the fixed message "Server error - contact support",
  whatever the error; and every response of either handler whose status is not
  200 has status 400, 404 or 500 and a body of the one shape \<^verbatim>\<open>{ message }\<close>.
\<close>

theorem query_failure_sends_500:
  "(issued (get_by_rating request) \<noteq> None \<longrightarrow>
      answer (get_by_rating request) (Rejected e) =
        ([LogText ''DB Query error on GET /book_by_rating'', LogError e],
         \<lparr> status = 500, body = MessageBody ''Server error - contact support'' \<rparr>))
   \<and> (issued (delete_by_range request) \<noteq> None \<longrightarrow>
      answer (delete_by_range request) (Rejected e) =
        ([LogText ''DB Query error on DELETE /delete_by_range'', LogError e],
         \<lparr> status = 500, body = MessageBody ''Server error - contact support'' \<rparr>))
   \<and> (status (snd (answer (get_by_rating request) out)) \<noteq> 200 \<longrightarrow>
      status (snd (answer (get_by_rating request) out)) \<in> {400, 404, 500}
      \<and> (\<exists>m. body (snd (answer (get_by_rating request) out)) = MessageBody m))
   \<and> (status (snd (answer (delete_by_range request) out)) \<noteq> 200 \<longrightarrow>
      status (snd (answer (delete_by_range request) out)) \<in> {400, 500}
      \<and> (\<exists>m. body (snd (answer (delete_by_range request) out)) = MessageBody m))"
proof (intro conjI impI)
  assume "issued (get_by_rating request) \<noteq> None"
  with get_by_rating_cases [of request]
  show "answer (get_by_rating request) (Rejected e) =
        ([LogText ''DB Query error on GET /book_by_rating'', LogError e],
         \<lparr> status = 500, body = MessageBody ''Server error - contact support'' \<rparr>)"
    by (auto simp add: then_catch_def get_by_rating_catch_def)
next
  assume "issued (delete_by_range request) \<noteq> None"
  with delete_by_range_cases [of request]
  show "answer (delete_by_range request) (Rejected e) =
        ([LogText ''DB Query error on DELETE /delete_by_range'', LogError e],
         \<lparr> status = 500, body = MessageBody ''Server error - contact support'' \<rparr>)"
    by (auto simp add: then_catch_def delete_by_range_catch_def)
next
  assume a: "status (snd (answer (get_by_rating request) out)) \<noteq> 200"
  from get_by_rating_cases [of request] a
  show "status (snd (answer (get_by_rating request) out)) \<in> {400, 404, 500}"
    by (cases out) (auto simp add: then_catch_def get_by_rating_then_def get_by_rating_catch_def
          split: if_splits)
  from get_by_rating_cases [of request] a
  show "\<exists>m. body (snd (answer (get_by_rating request) out)) = MessageBody m"
    by (cases out) (auto simp add: then_catch_def get_by_rating_then_def get_by_rating_catch_def
          split: if_splits)
next
  assume a: "status (snd (answer (delete_by_range request) out)) \<noteq> 200"
  from delete_by_range_cases [of request] a
  show "status (snd (answer (delete_by_range request) out)) \<in> {400, 500}"
    by (cases out) (auto simp add: then_catch_def delete_by_range_then_def delete_by_range_catch_def)
  from delete_by_range_cases [of request] a
  show "\<exists>m. body (snd (answer (delete_by_range request) out)) = MessageBody m"
    by (cases out) (auto simp add: then_catch_def delete_by_range_then_def delete_by_range_catch_def)
qed

theorem query_failure_sends_500_witness:
  "issued (get_by_rating \<lparr> params = Map.empty, query = [''rating'' \<mapsto> ''4''] \<rparr>) \<noteq> None
   \<and> issued (delete_by_range \<lparr> params = Map.empty, query = [''min'' \<mapsto> ''1990'', ''max'' \<mapsto> ''2000''] \<rparr>) \<noteq> None
   \<and> run pool_query (get_by_rating \<lparr> params = Map.empty, query = [''rating'' \<mapsto> ''4''] \<rparr>)
        \<lparr> books_table = some_books, fault = Some ''connection refused'' \<rparr> =
       ([LogText ''DB Query error on GET /book_by_rating'', LogError ''connection refused''],
        \<lparr> status = 500, body = MessageBody ''Server error - contact support'' \<rparr>,
        \<lparr> books_table = some_books, fault = Some ''connection refused'' \<rparr>)
   \<and> run pool_query (delete_by_range \<lparr> params = Map.empty, query = [''min'' \<mapsto> ''1990'', ''max'' \<mapsto> ''2000''] \<rparr>)
        \<lparr> books_table = some_books, fault = Some ''connection refused'' \<rparr> =
       ([LogText ''DB Query error on DELETE /delete_by_range'', LogError ''connection refused''],
        \<lparr> status = 500, body = MessageBody ''Server error - contact support'' \<rparr>,
        \<lparr> books_table = some_books, fault = Some ''connection refused'' \<rparr>)"
proof -
  let ?g = "\<lparr> params = Map.empty, query = [''rating'' \<mapsto> ''4''] \<rparr>"
  let ?d = "\<lparr> params = Map.empty, query = [''min'' \<mapsto> ''1990'', ''max'' \<mapsto> ''2000''] \<rparr>"
  let ?db = "\<lparr> books_table = some_books, fault = Some ''connection refused'' \<rparr>"
  let ?out = "Rejected ''connection refused''"
  have g: "get_by_rating ?g = Await get_by_rating_theQuery [Number (Num 4)]
             (then_catch get_by_rating_then get_by_rating_catch)"
    by (rule get_by_rating_valid) (simp_all add: parseInt_defs)
  have d: "delete_by_range ?d = Await delete_by_range_theQuery [Str ''1990'', Str ''2000'']
             (then_catch delete_by_range_then delete_by_range_catch)"
    using delete_by_range_valid [of ?d 1990 2000] by (simp add: parseInt_defs of_param_def)
  have ig: "issued (get_by_rating ?g) \<noteq> None" and idl: "issued (delete_by_range ?d) \<noteq> None"
    by (simp_all add: g d)
  from query_failure_sends_500 [of ?g "''connection refused''" ?out] ig
  have ag: "answer (get_by_rating ?g) ?out =
        ([LogText ''DB Query error on GET /book_by_rating'', LogError ''connection refused''],
         \<lparr> status = 500, body = MessageBody ''Server error - contact support'' \<rparr>)"
    by blast
  from query_failure_sends_500 [of ?d "''connection refused''" ?out] idl
  have ad: "answer (delete_by_range ?d) ?out =
        ([LogText ''DB Query error on DELETE /delete_by_range'', LogError ''connection refused''],
         \<lparr> status = 500, body = MessageBody ''Server error - contact support'' \<rparr>)"
    by blast
  have rg: "run pool_query (get_by_rating ?g) ?db =
              (fst (answer (get_by_rating ?g) ?out), snd (answer (get_by_rating ?g) ?out), ?db)"
    by (simp add: g pool_query_fault)
  have rd: "run pool_query (delete_by_range ?d) ?db =
              (fst (answer (delete_by_range ?d) ?out), snd (answer (delete_by_range ?d) ?out), ?db)"
    by (simp add: d pool_query_fault)
  show ?thesis
    using ig idl by (simp add: rg rd ag ad)
qed

subsection \<open>Where the parameters are read\<close>

text \<open>
  C9. Both handlers read \<^verbatim>\<open>request.query\<close> and never \<^verbatim>\<open>request.params\<close>: a
  request with no \<^verbatim>\<open>rating\<close> in its query string is answered 400 with
  "Rating parameter is required." whatever its path segment holds, replacing
  the path parameters changes neither handler, and the DELETE is validated on
  and bound to \<^verbatim>\<open>request.query.min\<close> and \<^verbatim>\<open>request.query.max\<close>.
\<close>

theorem handlers_read_the_query_string:
  "(query request ''rating'' = None \<longrightarrow>
      get_by_rating request =
        Respond \<lparr> status = 400, body = MessageBody ''Rating parameter is required.'' \<rparr>)
   \<and> get_by_rating (request \<lparr> params := p \<rparr>) = get_by_rating request
   \<and> delete_by_range (request \<lparr> params := p \<rparr>) = delete_by_range request
   \<and> issued (delete_by_range request) =
       (if isNaN (parseInt (query request ''min'')) \<or> isNaN (parseInt (query request ''max''))
           \<or> js_gt (parseInt (query request ''min'')) (parseInt (query request ''max''))
        then None
        else Some (''DELETE FROM books WHERE publication_year >= $1 AND publication_year <= $2'',
                   [of_param (query request ''min''), of_param (query request ''max'')]))"
  by (simp add: get_by_rating_def delete_by_range_def js_not_def delete_by_range_theQuery_def)

theorem handlers_read_the_query_string_witness:
  "query \<lparr> params = [''rating'' \<mapsto> ''3''], query = Map.empty \<rparr> ''rating'' = None
   \<and> get_by_rating \<lparr> params = [''rating'' \<mapsto> ''3''], query = Map.empty \<rparr> =
       Respond \<lparr> status = 400, body = MessageBody ''Rating parameter is required.'' \<rparr>
   \<and> issued (delete_by_range \<lparr> params = [''min'' \<mapsto> ''1990'', ''max'' \<mapsto> ''2000''], query = Map.empty \<rparr>) = None
   \<and> issued (delete_by_range \<lparr> params = [''min'' \<mapsto> ''1990'', ''max'' \<mapsto> ''2000''],
                                  query = [''min'' \<mapsto> ''1800'', ''max'' \<mapsto> ''1850''] \<rparr>) =
       Some (''DELETE FROM books WHERE publication_year >= $1 AND publication_year <= $2'',
             [Str ''1800'', Str ''1850''])"
proof -
  let ?g = "\<lparr> params = [''rating'' \<mapsto> ''3''], query = Map.empty \<rparr>"
  let ?d1 = "\<lparr> params = [''min'' \<mapsto> ''1990'', ''max'' \<mapsto> ''2000''], query = Map.empty \<rparr>"
  let ?d2 = "\<lparr> params = [''min'' \<mapsto> ''1990'', ''max'' \<mapsto> ''2000''],
               query = [''min'' \<mapsto> ''1800'', ''max'' \<mapsto> ''1850''] \<rparr>"
  have q: "query ?g ''rating'' = None" by simp
  have 1: "get_by_rating ?g =
       Respond \<lparr> status = 400, body = MessageBody ''Rating parameter is required.'' \<rparr>"
    using handlers_read_the_query_string [of ?g] q by blast
  have 2: "issued (delete_by_range ?d1) = None"
    using handlers_read_the_query_string [of ?d1] by (simp add: parseInt_defs isNaN_def)
  have 3: "issued (delete_by_range ?d2) =
       Some (''DELETE FROM books WHERE publication_year >= $1 AND publication_year <= $2'',
             [Str ''1800'', Str ''1850''])"
    using handlers_read_the_query_string [of ?d2]
    by (simp add: parseInt_defs isNaN_def js_gt_def of_param_def)
  show ?thesis
    using q 2 3 by (simp add: 1)
qed

end
